theory Spec2Isabelle
  imports Complex_Main
begin

section \<open>The application loop of Floor Sketcher (app.pyw)\<close>

text \<open>
  The file under study is \<^verbatim>\<open>src/app.pyw\<close>: class \<^verbatim>\<open>App\<close> with its constructor,
  \<^verbatim>\<open>run\<close>, \<^verbatim>\<open>background_updates\<close>, \<^verbatim>\<open>execute_commands\<close>, \<^verbatim>\<open>cap_frame_rate\<close>,
  \<^verbatim>\<open>load_from_file\<close> and \<^verbatim>\<open>notify_background_thread\<close>, and class
  \<^verbatim>\<open>BackgroundUpdater\<close>. The modules it imports (model, controller, tools, view) are
  not among the sources; what \<^verbatim>\<open>app.pyw\<close> calls in them is a parameter of the
  embedding, typed after the interface the specification gives for it.
\<close>

subsection \<open>Objects\<close>

text \<open>
  A reference is the identity of a Python object. \<^verbatim>\<open>self.model\<close> is a reference to a
  Model object and its attribute \<^verbatim>\<open>update_background\<close> a reference to a
  \<^verbatim>\<open>threading.Condition\<close>. What \<^verbatim>\<open>load_from_file\<close> and the shutdown do depends on
  which object a name denotes, so Model objects live in a store.
\<close>

type_synonym ref = nat

text \<open>A message is the tuple of strings handed to \<^verbatim>\<open>message_stack.insert\<close>.\<close>

type_synonym message = "string list"

record 'e Model =
  entities :: 'e
  update_background :: ref

record 'k Controller =
  message_stack :: "message list"
  loading :: bool
  internals :: 'k

text \<open>
  The components an \<^verbatim>\<open>App\<close> holds and hands to a command: \<^verbatim>\<open>self.model\<close>,
  \<^verbatim>\<open>self.controller\<close>, and the store of Model objects with its allocation mark
  (every reference below \<open>fresh\<close> is in use). The view only acts on the display; its
  calls are recorded in the trace of the run below.
\<close>

record ('e, 'k) components =
  model :: ref
  controller :: "'k Controller"
  objects :: "ref \<Rightarrow> 'e Model"
  fresh :: ref

text \<open>
  The modules model and tools as \<^verbatim>\<open>app.pyw\<close> uses them: the domain state of a
  default-constructed Model, and the constructor \<^verbatim>\<open>Loader(model, filename)\<close>, which
  mutates the Model it is given and either returns (\<open>Inr\<close>, the populated state) or
  raises (\<open>Inl\<close>, the exception and the state as the failed load left it). The
  Loader, like the controller below, works on the domain state of the Model; the
  Condition of a Model is the one its constructor gave it.
\<close>

record ('e, 'x) tools =
  Model_entities :: 'e
  Loader :: "'e \<Rightarrow> string \<Rightarrow> ('x \<times> 'e) + 'e"

text \<open>
  Modelled from the spec: the constructor \<^verbatim>\<open>Model()\<close> of model.py, which is not among
  the sources. The specification has a Model own its domain state and its
  synchronization condition and be default-constructible to a valid empty state: the
  constructor allocates a new Model object and a new Condition for it. Conditions are
  numbered like the Models that create them.
\<close>

definition Model_new ::
  "('e, 'x) tools \<Rightarrow> ('e, 'k) components \<Rightarrow> ref \<times> ('e, 'k) components" where
  "Model_new T p =
     (fresh p,
      p\<lparr>objects := (objects p)
           (fresh p := \<lparr>entities = Model_entities T, update_background = fresh p\<rparr>),
        fresh := Suc (fresh p)\<rparr>)"

text \<open>
  Modelled from the spec: \<^verbatim>\<open>MessageStack.insert\<close> of controller.py, which is not among
  the sources. The specification describes the message stack as an ordered log in
  insertion order, \<^verbatim>\<open>insert\<close> taking one tuple of strings.
\<close>

definition insert_message :: "message \<Rightarrow> ('e, 'k) components \<Rightarrow> ('e, 'k) components" where
  "insert_message msg p =
     p\<lparr>controller := (controller p)\<lparr>message_stack := message_stack (controller p) @ [msg]\<rparr>\<rparr>"

subsection \<open>load_from_file\<close>

text \<open>
  Lines 92 to 94, the body of \<^verbatim>\<open>try\<close>: the Loader works on the object \<^verbatim>\<open>self.model\<close>
  refers to, in place; when it raises, the exception leaves the body with the object as
  the Loader left it, and the success message is not inserted.
\<close>

definition try_load ::
  "('e, 'x) tools \<Rightarrow> string \<Rightarrow> ('e, 'k) components \<Rightarrow> ('x \<times> ('e, 'k) components) + ('e, 'k) components" where
  "try_load T filename p =
     (let m = objects p (model p) in
      case Loader T (entities m) filename of
        Inl (x, e) \<Rightarrow> Inl (x, p\<lparr>objects := (objects p)(model p := m\<lparr>entities := e\<rparr>)\<rparr>)
      | Inr e \<Rightarrow>
          Inr (insert_message [''Loaded from save file: '' @ filename]
                 (p\<lparr>objects := (objects p)(model p := m\<lparr>entities := e\<rparr>)\<rparr>)))"

text \<open>
  Lines 95 to 98: the bare \<^verbatim>\<open>except\<close> takes every exception, inserts the error message
  and binds \<^verbatim>\<open>self.model\<close> to a new Model. The result is a sum so that an exception
  leaving \<^verbatim>\<open>load_from_file\<close> would be a value \<open>Inl\<close>.
\<close>

definition load_from_file ::
  "('e, 'x) tools \<Rightarrow> string \<Rightarrow> ('e, 'k) components \<Rightarrow> 'x + ('e, 'k) components" where
  "load_from_file T filename p =
     (case try_load T filename p of
        Inr p' \<Rightarrow> Inr p'
      | Inl (x, p') \<Rightarrow>
          (let p1 = insert_message [''Error loading save file: '' @ filename] p';
               (r, p2) = Model_new T p1
           in Inr (p2\<lparr>model := r\<rparr>)))"

text \<open>The expression \<^verbatim>\<open>self.model.update_background\<close>.\<close>

definition model_update_background :: "('e, 'k) components \<Rightarrow> ref" where
  "model_update_background p = update_background (objects p (model p))"

subsection \<open>The App and what it does to the outside\<close>

text \<open>
  The background thread, by the line of \<^verbatim>\<open>background_updates\<close> and \<^verbatim>\<open>update\<close> it is
  at: not started; at the test of its loop (line 66); past the test and about to enter
  \<^verbatim>\<open>with condition\<close> (line 113); blocked in \<^verbatim>\<open>condition.wait()\<close> (line 114); or past the
  end of \<^verbatim>\<open>background_updates\<close>. It carries the Condition it was given.
\<close>

datatype thread_state = Unstarted | At_test ref | Entering ref | Waiting ref | Exited

text \<open>The calls \<^verbatim>\<open>app.pyw\<close> makes on the display, the clock and the threading library.\<close>

datatype 'c event =
    ViewCreated
  | ThreadStart ref
  | HandleInput
  | ViewUpdate
  | Execute 'c
  | Sleep real
  | ViewExit
  | Acquire ref
  | NotifyAll ref
  | Release ref
  | Joined

text \<open>
  The attributes of an \<^verbatim>\<open>App\<close> (\<open>comps\<close>, \<open>running\<close>, \<open>commands\<close>), the
  background thread and the trace of calls made so far.
\<close>

record ('e, 'k, 'c) world =
  comps :: "('e, 'k) components"
  running :: bool
  commands :: "'c list"
  thread :: thread_state
  trace :: "'c event list"

text \<open>
  The controller and the commands as \<^verbatim>\<open>app.pyw\<close> uses them.
  \<^verbatim>\<open>handle_input(model, screen_dimensions, commands)\<close> works on the controller itself,
  the Model object and the command list it is handed, and returns whether to go on;
  \<open>'i\<close> is what the user did since the last poll. \<^verbatim>\<open>command.execute(app)\<close> is an
  effect on the components of the App; the specification keeps \<open>running\<close> and the
  command queue to the loop itself.
\<close>

record ('e, 'k, 'c, 'i) actors =
  handle_input ::
    "'i \<Rightarrow> 'k Controller \<Rightarrow> 'e \<Rightarrow> nat \<times> nat \<Rightarrow> 'c list \<Rightarrow> bool \<times> 'k Controller \<times> 'e \<times> 'c list"
  execute :: "'c \<Rightarrow> ('e, 'k) components \<Rightarrow> ('e, 'k) components"

subsection \<open>The constructor\<close>

definition empty_components :: "('e, 'x) tools \<Rightarrow> 'k Controller \<Rightarrow> ('e, 'k) components" where
  "empty_components T K =
     \<lparr>model = 0, controller = K,
      objects = (\<lambda>r. \<lparr>entities = Model_entities T, update_background = 0\<rparr>), fresh = 0\<rparr>"

text \<open>
  Lines 17 to 28. \<open>K\<close> is the value of \<^verbatim>\<open>Controller()\<close>. A Python string is true when
  it is not empty.
\<close>

definition App_init ::
  "('e, 'x) tools \<Rightarrow> 'k Controller \<Rightarrow> string \<Rightarrow> 'x + ('e, 'k, 'c) world" where
  "App_init T K load =
     (let (r, p) = Model_new T (empty_components T K);
          w = \<lparr>comps = p\<lparr>model := r\<rparr>, running = False, commands = [],
               thread = Unstarted, trace = [ViewCreated]\<rparr>
      in if load \<noteq> []
         then (case load_from_file T load (comps w) of
                 Inl x \<Rightarrow> Inl x
               | Inr p' \<Rightarrow> Inr (w\<lparr>comps := p'\<rparr>))
         else Inr w)"

subsection \<open>execute_commands, cap_frame_rate\<close>

text \<open>Lines 71 and 72, the \<^verbatim>\<open>for\<close> loop over the queue.\<close>

primrec for_commands ::
  "('e, 'k, 'c, 'i) actors \<Rightarrow> 'c list \<Rightarrow> ('e, 'k, 'c, 'z) world_scheme \<Rightarrow> ('e, 'k, 'c, 'z) world_scheme" where
  "for_commands A [] w = w"
| "for_commands A (c # cs) w =
     for_commands A cs (w\<lparr>comps := execute A c (comps w), trace := trace w @ [Execute c]\<rparr>)"

definition execute_commands ::
  "('e, 'k, 'c, 'i) actors \<Rightarrow> ('e, 'k, 'c, 'z) world_scheme \<Rightarrow> ('e, 'k, 'c, 'z) world_scheme" where
  "execute_commands A w =
     (let w' = for_commands A (commands w) w
      in w'\<lparr>commands := [],
            comps := (comps w')\<lparr>controller := (controller (comps w'))\<lparr>loading := False\<rparr>\<rparr>\<rparr>)"

text \<open>
  Lines 82 and 83. Durations are the real numbers the Python floats stand for, in
  seconds.
\<close>

definition cap_frame_rate ::
  "real \<Rightarrow> ('e, 'k, 'c, 'z) world_scheme \<Rightarrow> ('e, 'k, 'c, 'z) world_scheme" where
  "cap_frame_rate frame_duration w =
     (if frame_duration < 0.16 then w\<lparr>trace := trace w @ [Sleep 0.008]\<rparr> else w)"

subsection \<open>The background thread\<close>

text \<open>
  One step of the background thread (lines 66, 67, 113 and 114). At the test of its
  loop it reads \<^verbatim>\<open>app.running\<close> and goes on to \<^verbatim>\<open>update\<close> or ends; from there it
  takes the lock of its Condition and waits, in one step, since \<^verbatim>\<open>notify_all\<close> needs
  the same lock; waiting, it does not move.
\<close>

definition background_updates :: "bool \<Rightarrow> thread_state \<Rightarrow> thread_state" where
  "background_updates app_running t =
     (case t of
        Unstarted \<Rightarrow> Unstarted
      | At_test condition \<Rightarrow> if app_running then Entering condition else Exited
      | Entering condition \<Rightarrow> Waiting condition
      | Waiting condition \<Rightarrow> Waiting condition
      | Exited \<Rightarrow> Exited)"

text \<open>
  \<^verbatim>\<open>notify_all\<close> on a Condition wakes the thread when it is waiting, and on that
  Condition: the thread leaves \<^verbatim>\<open>update\<close> and is at the test of its loop again. A
  thread that is not waiting yet is not told.
\<close>

definition notify_all :: "ref \<Rightarrow> thread_state \<Rightarrow> thread_state" where
  "notify_all c t =
     (case t of
        Unstarted \<Rightarrow> Unstarted
      | At_test c' \<Rightarrow> At_test c'
      | Entering c' \<Rightarrow> Entering c'
      | Waiting c' \<Rightarrow> if c' = c then At_test c' else Waiting c'
      | Exited \<Rightarrow> Exited)"

text \<open>Lines 104 and 105.\<close>

definition notify_background_thread ::
  "('e, 'k, 'c, 'z) world_scheme \<Rightarrow> ('e, 'k, 'c, 'z) world_scheme" where
  "notify_background_thread w =
     (let c = model_update_background (comps w)
      in w\<lparr>trace := trace w @ [Acquire c, NotifyAll c, Release c],
           thread := notify_all c (thread w)\<rparr>)"

subsection \<open>run\<close>

text \<open>
  \<^verbatim>\<open>run\<close> goes on for as long as the user lets it, so it is a machine: a program
  point names the statement of \<^verbatim>\<open>run\<close> to execute next.
\<close>

datatype pc =
    Set_running
  | Start_thread
  | Loop_test
  | Read_start
  | Poll_input
  | View_update
  | Execute_commands
  | Pace
  | View_exit
  | Notify
  | Join
  | Return
  | Returned bool

text \<open>
  The two threads take turns in any order. An input says whose turn it is and what the
  outside holds then: the clock, the user's input since the last poll, the size of
  the window.
\<close>

datatype turn = Main | Background

record 'i input =
  now :: real
  events :: 'i
  screen :: "nat \<times> nat"
  turn :: turn

text \<open>The state of a call of \<^verbatim>\<open>run\<close>: the world, the program point and the local
  \<^verbatim>\<open>start\<close>.\<close>

record ('e, 'k, 'c) config = "('e, 'k, 'c) world" +
  pc :: pc
  start :: real

definition call_run :: "('e, 'k, 'c) world \<Rightarrow> ('e, 'k, 'c) config" where
  "call_run w =
     \<lparr>comps = comps w, running = running w, commands = commands w, thread = thread w,
      trace = trace w, pc = Set_running, start = 0\<rparr>"

text \<open>Lines 45 and 46.\<close>

definition poll_input ::
  "('e, 'k, 'c, 'i) actors \<Rightarrow> 'i input \<Rightarrow> ('e, 'k, 'c, 'z) world_scheme \<Rightarrow> ('e, 'k, 'c, 'z) world_scheme" where
  "poll_input A inp w =
     (let p = comps w; m = objects p (model p);
          (r, k, e, cs) = handle_input A (events inp) (controller p) (entities m) (screen inp) (commands w)
      in w\<lparr>running := r,
           comps := p\<lparr>controller := k, objects := (objects p)(model p := m\<lparr>entities := e\<rparr>)\<rparr>,
           commands := cs,
           trace := trace w @ [HandleInput]\<rparr>)"

text \<open>
  One statement of \<^verbatim>\<open>run\<close> (lines 34 to 56). The started thread is at the test of
  its loop. \<^verbatim>\<open>join\<close> returns when the background thread has ended; until then the
  main thread stays where it is, as it does once \<^verbatim>\<open>run\<close> has returned.
\<close>

definition main_step ::
  "('e, 'k, 'c, 'i) actors \<Rightarrow> 'i input \<Rightarrow> ('e, 'k, 'c) config \<Rightarrow> ('e, 'k, 'c) config" where
  "main_step A inp c =
     (case pc c of
        Set_running \<Rightarrow> c\<lparr>running := True, pc := Start_thread\<rparr>
      | Start_thread \<Rightarrow>
          (let condition = model_update_background (comps c)
           in c\<lparr>thread := At_test condition,
                trace := trace c @ [ThreadStart condition],
                pc := Loop_test\<rparr>)
      | Loop_test \<Rightarrow> c\<lparr>pc := (if running c then Read_start else View_exit)\<rparr>
      | Read_start \<Rightarrow> c\<lparr>start := now inp, pc := Poll_input\<rparr>
      | Poll_input \<Rightarrow> (poll_input A inp c)\<lparr>pc := View_update\<rparr>
      | View_update \<Rightarrow> c\<lparr>trace := trace c @ [ViewUpdate], pc := Execute_commands\<rparr>
      | Execute_commands \<Rightarrow> (execute_commands A c)\<lparr>pc := Pace\<rparr>
      | Pace \<Rightarrow> (cap_frame_rate (now inp - start c) c)\<lparr>pc := Loop_test\<rparr>
      | View_exit \<Rightarrow> c\<lparr>trace := trace c @ [ViewExit], pc := Notify\<rparr>
      | Notify \<Rightarrow> (notify_background_thread c)\<lparr>pc := Join\<rparr>
      | Join \<Rightarrow>
          (if thread c = Exited then c\<lparr>trace := trace c @ [Joined], pc := Return\<rparr>
           else c)
      | Return \<Rightarrow> c\<lparr>pc := Returned True\<rparr>
      | Returned b \<Rightarrow> c)"

text \<open>One step of the program: a statement of \<^verbatim>\<open>run\<close> or a step of the background
  thread.\<close>

definition step ::
  "('e, 'k, 'c, 'i) actors \<Rightarrow> 'i input \<Rightarrow> ('e, 'k, 'c) config \<Rightarrow> ('e, 'k, 'c) config" where
  "step A inp c =
     (case turn inp of
        Main \<Rightarrow> main_step A inp c
      | Background \<Rightarrow> c\<lparr>thread := background_updates (running c) (thread c)\<rparr>)"

text \<open>The program run on a sequence of inputs.\<close>

fun exec ::
  "('e, 'k, 'c, 'i) actors \<Rightarrow> 'i input list \<Rightarrow> ('e, 'k, 'c) config \<Rightarrow> ('e, 'k, 'c) config" where
  "exec A [] c = c"
| "exec A (inp # inps) c = exec A inps (step A inp c)"

subsection \<open>Stores in which every Model has a Condition of its own\<close>




subsection \<open>A small application\<close>

text \<open>
  An instance of the parameters, for running the definitions: a Model is a list of
  entity numbers, and the Loader reads \<^verbatim>\<open>plan.sav\<close> and fails on any other file after
  adding one entity. The user can open a file, quit, do nothing, start afresh or go
  back to an earlier Model; the commands call \<^verbatim>\<open>app.load_from_file\<close>, bind
  \<^verbatim>\<open>app.model\<close> to a new Model, and bind it to a Model made before.
\<close>

datatype demo_error = Bad_file

datatype demo_command = Load_command string | New_model_command | Use_model_command ref

datatype demo_event = Idle | Open_file string | Quit | Start_afresh | Back_to ref

definition demo_tools :: "(nat list, demo_error) tools" where
  "demo_tools =
     \<lparr>Model_entities = [],
      Loader = (\<lambda>e f. if f = ''plan.sav'' then Inr [1, 2, 3] else Inl (Bad_file, e @ [1]))\<rparr>"

definition demo_controller :: "unit Controller" where
  "demo_controller = \<lparr>message_stack = [], loading = False, internals = ()\<rparr>"

definition demo_handle_input ::
  "demo_event \<Rightarrow> unit Controller \<Rightarrow> nat list \<Rightarrow> nat \<times> nat \<Rightarrow> demo_command list
     \<Rightarrow> bool \<times> unit Controller \<times> nat list \<times> demo_command list" where
  "demo_handle_input ev k e dims cs =
     (case ev of
        Idle \<Rightarrow> (True, k, e, cs)
      | Open_file f \<Rightarrow> (True, k\<lparr>loading := True\<rparr>, e, cs @ [Load_command f])
      | Quit \<Rightarrow> (False, k, e, cs)
      | Start_afresh \<Rightarrow> (True, k, e, cs @ [New_model_command])
      | Back_to r \<Rightarrow> (True, k, e, cs @ [Use_model_command r]))"

definition demo_execute ::
  "demo_command \<Rightarrow> (nat list, unit) components \<Rightarrow> (nat list, unit) components" where
  "demo_execute c p =
     (case c of
        Load_command f \<Rightarrow> (case load_from_file demo_tools f p of Inl x \<Rightarrow> p | Inr p' \<Rightarrow> p')
      | New_model_command \<Rightarrow> (let (r, p') = Model_new demo_tools p in p'\<lparr>model := r\<rparr>)
      | Use_model_command r \<Rightarrow> (if r < fresh p then p\<lparr>model := r\<rparr> else p))"

definition demo_actors :: "(nat list, unit, demo_command, demo_event) actors" where
  "demo_actors = \<lparr>handle_input = demo_handle_input, execute = demo_execute\<rparr>"

text \<open>The App that \<^verbatim>\<open>App()\<close> builds from these.\<close>

definition demo_app :: "(nat list, unit, demo_command) world" where
  "demo_app =
     \<lparr>comps = \<lparr>model = 0, controller = demo_controller,
               objects = (\<lambda>r. \<lparr>entities = [], update_background = 0\<rparr>),
               fresh = Suc 0\<rparr>,
      running = False, commands = [], thread = Unstarted, trace = [ViewCreated]\<rparr>"

text \<open>A statement of \<^verbatim>\<open>run\<close> with the user doing \<open>ev\<close>, and a step of the background
  thread.\<close>

definition input_of :: "demo_event \<Rightarrow> demo_event input" where
  "input_of ev = \<lparr>now = 0, events = ev, screen = (800, 600), turn = Main\<rparr>"

definition background_turn :: "demo_event input" where
  "background_turn = \<lparr>now = 0, events = Idle, screen = (800, 600), turn = Background\<rparr>"

text \<open>
  The user opens the unreadable \<^verbatim>\<open>bad.sav\<close> in the first frame and quits in the
  second; the background thread reaches its wait between the two.
\<close>

definition open_bad_then_quit :: "demo_event input list" where
  "open_bad_then_quit =
     map input_of [Idle, Idle, Idle,
             Idle, Open_file ''bad.sav'', Idle, Idle, Idle, Idle]
     @ [background_turn, background_turn]
     @ map input_of [Idle, Quit, Idle, Idle, Idle, Idle,
             Idle, Idle]"

text \<open>
  The user quits in the first frame. The background thread reaches its wait before the
  loop starts, and takes its turn again after the notification.
\<close>

definition quit_at_once :: "demo_event input list" where
  "quit_at_once =
     map input_of [Idle, Idle]
     @ [background_turn, background_turn]
     @ map input_of [Idle,
             Idle, Quit, Idle, Idle, Idle, Idle,
             Idle, Idle]
     @ [background_turn]
     @ map input_of [Idle, Idle]"

text \<open>
  The same, but the background thread has passed the test of its loop and is not
  waiting yet when the main thread notifies.
\<close>

definition quit_before_wait :: "demo_event input list" where
  "quit_before_wait =
     map input_of [Idle, Idle]
     @ [background_turn]
     @ map input_of [Idle,
             Idle, Quit, Idle, Idle, Idle, Idle,
             Idle, Idle]
     @ [background_turn]"


subsection \<open>Invariants of run\<close>

text \<open>The queue holds commands only between the poll and the end of
  \<^verbatim>\<open>execute_commands\<close>.\<close>

definition queue_inv :: "('e, 'k, 'c) config \<Rightarrow> bool" where
  "queue_inv c \<longleftrightarrow> pc c = View_update \<or> pc c = Execute_commands \<or> commands c = []"

text \<open>Past its first statement, \<^verbatim>\<open>run\<close> has set \<open>running\<close> and starts a frame only
  while it holds.\<close>

definition loop_inv :: "('e, 'k, 'c) config \<Rightarrow> bool" where
  "loop_inv c \<longleftrightarrow>
     pc c \<noteq> Set_running
     \<and> (pc c = Start_thread \<or> pc c = Read_start \<or> pc c = Poll_input \<longrightarrow> running c)"


section \<open>Properties\<close>

subsection \<open>Running the machine\<close>


lemma for_commands_fold:
  "for_commands A cs w =
     w\<lparr>comps := fold (execute A) cs (comps w), trace := trace w @ map Execute cs\<rparr>"
  by (induction cs arbitrary: w) simp_all

lemma execute_commands_fold:
  "execute_commands A w =
     w\<lparr>comps := (fold (execute A) (commands w) (comps w))
                  \<lparr>controller := (controller (fold (execute A) (commands w) (comps w)))\<lparr>loading := False\<rparr>\<rparr>,
       trace := trace w @ map Execute (commands w),
       commands := []\<rparr>"
  by (simp add: execute_commands_def for_commands_fold Let_def)

lemma exec_append: "exec A (xs @ ys) c = exec A ys (exec A xs c)"
  by (induction xs arbitrary: c) simp_all

lemma exec_invariant:
  assumes "P c" and "\<And>i c. P c \<Longrightarrow> P (step A i c)"
  shows "P (exec A inps c)"
  using assms(1)
proof (induction inps arbitrary: c)
  case Nil
  then show ?case by simp
next
  case (Cons i inps)
  then show ?case
    by (simp add: assms(2))
qed

text \<open>Blocked in \<^verbatim>\<open>join\<close> with the thread in its wait, nothing moves any more.\<close>

lemma blocked_in_join:
  assumes "pc c = Join" and "thread c = Waiting k"
  shows "exec A inps c = c"
proof (induction inps)
  case Nil
  show ?case by simp
next
  case (Cons i inps)
  have "step A i c = c"
    using assms
    by (cases "turn i") (simp_all add: step_def main_step_def background_updates_def)
  with Cons show ?case by simp
qed

lemmas demo_defs = demo_app_def demo_actors_def demo_execute_def demo_handle_input_def
  demo_controller_def demo_tools_def input_of_def background_turn_def

lemmas run_defs = step_def main_step_def call_run_def poll_input_def execute_commands_def
  cap_frame_rate_def notify_background_thread_def notify_all_def background_updates_def
  model_update_background_def
  load_from_file_def try_load_def Model_new_def insert_message_def Let_def

subsection \<open>load_from_file\<close>

text \<open>
  \<^bold>\<open>C1.\<close> For every filename, when the Loader raises (whatever the exception \<open>x\<close>, and
  whatever state \<open>e\<close> it leaves the Model in), \<^verbatim>\<open>load_from_file\<close> returns normally
  (\<open>Inr\<close>); the message stack has grown by the one message
  \<^verbatim>\<open>('Error loading save file: ' + filename,)\<close>; and \<^verbatim>\<open>self.model\<close> is a reference not in
  use before, to a Model with the default state and a Condition of its own.
\<close>

theorem load_failure_resets_model:
  assumes "Loader T (entities (objects p (model p))) filename = Inl (x, e)"
  shows "load_from_file T filename p =
           Inr (p\<lparr>controller := (controller p)\<lparr>message_stack :=
                     message_stack (controller p) @ [[''Error loading save file: '' @ filename]]\<rparr>,
                  objects := (objects p)
                    (model p := (objects p (model p))\<lparr>entities := e\<rparr>,
                     fresh p := \<lparr>entities = Model_entities T, update_background = fresh p\<rparr>),
                  fresh := Suc (fresh p),
                  model := fresh p\<rparr>)"
  using assms
  by (simp add: load_from_file_def try_load_def Model_new_def insert_message_def Let_def)

text \<open>The small application fails to load \<^verbatim>\<open>bad.sav\<close>.\<close>

theorem load_failure_witness:
  "Loader demo_tools (entities (objects (comps demo_app) (model (comps demo_app)))) ''bad.sav''
     = Inl (Bad_file, [1])
   \<and> message_stack (controller (projr (load_from_file demo_tools ''bad.sav'' (comps demo_app))))
       = [[''Error loading save file: bad.sav'']]
   \<and> model (projr (load_from_file demo_tools ''bad.sav'' (comps demo_app))) = 1
   \<and> objects (projr (load_from_file demo_tools ''bad.sav'' (comps demo_app))) 1
       = \<lparr>entities = [], update_background = 1\<rparr>
   \<and> objects (projr (load_from_file demo_tools ''bad.sav'' (comps demo_app))) 0
       = \<lparr>entities = [1], update_background = 0\<rparr>"
proof -
  have h: "Loader demo_tools (entities (objects (comps demo_app) (model (comps demo_app))))
             ''bad.sav'' = Inl (Bad_file, [1])"
    by (simp add: demo_tools_def demo_app_def)
  from load_failure_resets_model [OF h] h show ?thesis
    by (simp add: demo_tools_def demo_app_def demo_controller_def)
qed

text \<open>
  \<^bold>\<open>C2.\<close> For every filename, when the Loader returns, \<^verbatim>\<open>load_from_file\<close> returns
  normally, the message stack has grown by the one message
  \<^verbatim>\<open>('Loaded from save file: ' + filename,)\<close>, and \<^verbatim>\<open>self.model\<close> is the reference it
  was: the same Model object, holding what the Loader put there.
\<close>

theorem load_success_keeps_model:
  assumes "Loader T (entities (objects p (model p))) filename = Inr e"
  shows "load_from_file T filename p =
           Inr (p\<lparr>controller := (controller p)\<lparr>message_stack :=
                     message_stack (controller p) @ [[''Loaded from save file: '' @ filename]]\<rparr>,
                  objects := (objects p)(model p := (objects p (model p))\<lparr>entities := e\<rparr>)\<rparr>)"
  using assms
  by (simp add: load_from_file_def try_load_def insert_message_def Let_def)

text \<open>The small application loads \<^verbatim>\<open>plan.sav\<close>.\<close>

theorem load_success_witness:
  "Loader demo_tools (entities (objects (comps demo_app) (model (comps demo_app)))) ''plan.sav''
     = Inr [1, 2, 3]
   \<and> message_stack (controller (projr (load_from_file demo_tools ''plan.sav'' (comps demo_app))))
       = [[''Loaded from save file: plan.sav'']]
   \<and> model (projr (load_from_file demo_tools ''plan.sav'' (comps demo_app)))
       = model (comps demo_app)
   \<and> objects (projr (load_from_file demo_tools ''plan.sav'' (comps demo_app))) 0
       = \<lparr>entities = [1, 2, 3], update_background = 0\<rparr>
   \<and> fresh (projr (load_from_file demo_tools ''plan.sav'' (comps demo_app))) = 1"
proof -
  have h: "Loader demo_tools (entities (objects (comps demo_app) (model (comps demo_app))))
             ''plan.sav'' = Inr [1, 2, 3]"
    by (simp add: demo_tools_def demo_app_def)
  from load_success_keeps_model [OF h] h show ?thesis
    by (simp add: demo_tools_def demo_app_def demo_controller_def)
qed

subsection \<open>The constructor\<close>

text \<open>
  \<^bold>\<open>C9.\<close> \<^verbatim>\<open>App()\<close> and \<^verbatim>\<open>App(load='')\<close> attempt no load: the App is the one written
  out below, in which the controller is \<^verbatim>\<open>Controller()\<close> as constructed (no message
  inserted) and the Model is the default one; and the Loader plays no part, the App
  being the same whatever Loader the tools have.
\<close>

theorem App_init_without_load:
  "App_init T K [] =
     Inr \<lparr>comps = \<lparr>model = 0, controller = K,
                   objects = (\<lambda>r. \<lparr>entities = Model_entities T, update_background = 0\<rparr>)
                     (0 := \<lparr>entities = Model_entities T, update_background = 0\<rparr>),
                   fresh = Suc 0\<rparr>,
          running = False, commands = [], thread = Unstarted, trace = [ViewCreated]\<rparr>
   \<and> App_init (T\<lparr>Loader := L\<rparr>) K [] = App_init T K []"
  by (simp add: App_init_def Model_new_def empty_components_def)

subsection \<open>execute_commands\<close>

text \<open>
  \<^bold>\<open>C3.\<close> For every queue \<open>[c1, ..., cn]\<close>, \<^verbatim>\<open>execute_commands\<close> calls \<^verbatim>\<open>execute\<close> on
  \<open>c1\<close>, ..., \<open>cn\<close>, once each and in this order (the trace grows by exactly these
  calls, and the components are the result of the effects applied first to last);
  afterwards the queue is empty and the controller's \<open>loading\<close> is false.
\<close>

theorem execute_commands_in_order:
  "execute_commands A w =
     w\<lparr>comps := (fold (execute A) (commands w) (comps w))
                  \<lparr>controller := (controller (fold (execute A) (commands w) (comps w)))\<lparr>loading := False\<rparr>\<rparr>,
       trace := trace w @ map Execute (commands w),
       commands := []\<rparr>"
  by (simp add: execute_commands_def for_commands_fold Let_def)

subsection \<open>cap_frame_rate\<close>

text \<open>
  The literal \<^verbatim>\<open>0.16\<close> is the double \<open>5764607523034235 / 2 ^ 55\<close>, a little above the
  real number 0.16. A double is below \<open>1 / 8\<close> or a multiple of \<open>1 / 2 ^ 55\<close>, and on
  those the comparison with the real 0.16 decides as the comparison with the double
  does.
\<close>

lemma cap_frame_rate_double:
  fixes k :: int
  assumes "d < 1 / 8 \<or> d = real_of_int k / 2 ^ 55"
  shows "cap_frame_rate d w =
           (if d < 5764607523034235 / 2 ^ 55
            then w\<lparr>trace := trace w @ [Sleep 0.008]\<rparr> else w)"
proof -
  have "(real_of_int k / 2 ^ 55 < 0.16) = (real_of_int k * 100 < 16 * 2 ^ 55)"
    by (simp add: field_simps)
  also have "\<dots> = (real_of_int (k * 100) < real_of_int (16 * 2 ^ 55))"
    by simp
  also have "\<dots> = (k * 100 < 16 * 2 ^ 55)"
    by (rule of_int_less_iff)
  also have "\<dots> = (k < 5764607523034235)"
    by simp presburger
  also have "\<dots> = (real_of_int k < real_of_int 5764607523034235)"
    by (rule of_int_less_iff [symmetric])
  also have "\<dots> = (real_of_int k / 2 ^ 55 < 5764607523034235 / 2 ^ 55)"
    by (simp add: field_simps)
  finally have grid:
    "(real_of_int k / 2 ^ 55 < 0.16) = (real_of_int k / 2 ^ 55 < 5764607523034235 / 2 ^ 55)" .
  have "(d < 0.16) = (d < 5764607523034235 / 2 ^ 55)"
  proof (cases "d < 1 / 8")
    case True
    then have "d < 0.16" and "d < 5764607523034235 / 2 ^ 55"
      by simp_all
    then show ?thesis by simp
  next
    case False
    with assms have d: "d = real_of_int k / 2 ^ 55" by simp
    show ?thesis unfolding d by (rule grid)
  qed
  then show ?thesis
    by (simp add: cap_frame_rate_def)
qed

text \<open>
  \<^bold>\<open>C6.\<close> For every frame duration \<open>d\<close> in seconds, \<^verbatim>\<open>cap_frame_rate(d)\<close> makes the one
  call \<^verbatim>\<open>time.sleep(0.008)\<close> when \<open>d < 0.16\<close>, and does nothing when \<open>d \<ge> 0.16\<close>.
\<close>

theorem cap_frame_rate_sleep:
  "(d < 0.16 \<longrightarrow> cap_frame_rate d w = w\<lparr>trace := trace w @ [Sleep 0.008]\<rparr>)
   \<and> (0.16 \<le> d \<longrightarrow> cap_frame_rate d w = w)"
  by (simp add: cap_frame_rate_def)

text \<open>A tenth of a second, the threshold itself, and a fifth of a second.\<close>

theorem cap_frame_rate_sleep_witness:
  "cap_frame_rate 0.1 demo_app = demo_app\<lparr>trace := [ViewCreated, Sleep 0.008]\<rparr>
   \<and> cap_frame_rate 0.16 demo_app = demo_app
   \<and> cap_frame_rate 0.2 demo_app = demo_app"
  using cap_frame_rate_sleep [of "0.1" demo_app] cap_frame_rate_sleep [of "0.16" demo_app]
    cap_frame_rate_sleep [of "0.2" demo_app]
  by (simp add: demo_app_def)

text \<open>
  \<^bold>\<open>C7.\<close> The claim has the thread sleep exactly when the frame took less than 16 ms,
  as the comment at line 81 says (60 fps, about 16 ms for a frame). The code compares
  with \<^verbatim>\<open>0.16\<close> seconds, ten times as long: a frame of 50 ms is not below 16 ms, and
  \<^verbatim>\<open>cap_frame_rate\<close> sleeps after it.
\<close>

theorem cap_frame_rate_sleeps_after_50_ms:
  "\<not> (0.05 :: real) < 0.016
   \<and> cap_frame_rate 0.05 w = w\<lparr>trace := trace w @ [Sleep 0.008]\<rparr>"
  by (simp add: cap_frame_rate_def)

subsection \<open>The command queue over a run\<close>

lemma step_queue_inv: "queue_inv c \<Longrightarrow> queue_inv (step A i c)"
proof (cases "turn i")
  case Main
  assume "queue_inv c"
  with Main show ?thesis
    by (cases "pc c")
       (auto simp: queue_inv_def step_def main_step_def execute_commands_fold cap_frame_rate_def
          notify_background_thread_def Let_def)
next
  case Background
  assume "queue_inv c"
  with Background show ?thesis
    by (simp add: queue_inv_def step_def)
qed

text \<open>
  \<^bold>\<open>C4.\<close> \<^verbatim>\<open>run\<close> is called with an empty queue, as the constructor leaves it. Then
  at every point of every run the queue is empty immediately before the poll
  (\<open>Poll_input\<close> is the next statement) and immediately after \<^verbatim>\<open>execute_commands\<close>
  (\<open>Pace\<close> is the next statement), in every frame; it holds a command only when the
  next statement is \<^verbatim>\<open>view.update\<close> or \<^verbatim>\<open>execute_commands\<close>, that is between the poll
  and the end of \<^verbatim>\<open>execute_commands\<close> of one frame.
\<close>

theorem queue_empty_outside_poll_to_execute:
  assumes "commands w = []" and "c = exec A inps (call_run w)"
  shows "(pc c = Poll_input \<longrightarrow> commands c = [])
         \<and> (pc c = Pace \<longrightarrow> commands c = [])
         \<and> (commands c \<noteq> [] \<longrightarrow> pc c = View_update \<or> pc c = Execute_commands)"
proof -
  have "queue_inv (call_run w)"
    using assms(1) by (simp add: queue_inv_def call_run_def)
  then have "queue_inv c"
    unfolding assms(2) by (rule exec_invariant) (rule step_queue_inv)
  then show ?thesis
    by (auto simp: queue_inv_def)
qed

text \<open>The first frame of the small application, in which the user opens a file.\<close>

theorem queue_empty_witness:
  "commands demo_app = []
   \<and> pc (exec demo_actors (take 4 open_bad_then_quit) (call_run demo_app)) = Poll_input
   \<and> commands (exec demo_actors (take 4 open_bad_then_quit) (call_run demo_app)) = []
   \<and> pc (exec demo_actors (take 5 open_bad_then_quit) (call_run demo_app)) = View_update
   \<and> commands (exec demo_actors (take 5 open_bad_then_quit) (call_run demo_app))
       = [Load_command ''bad.sav'']
   \<and> pc (exec demo_actors (take 7 open_bad_then_quit) (call_run demo_app)) = Pace
   \<and> commands (exec demo_actors (take 7 open_bad_then_quit) (call_run demo_app)) = []"
proof -
  have e: "commands demo_app = []"
    by (simp add: demo_app_def)
  have 4: "pc (exec demo_actors (take 4 open_bad_then_quit) (call_run demo_app)) = Poll_input"
    by (simp add: open_bad_then_quit_def demo_defs run_defs)
  have 5: "pc (exec demo_actors (take 5 open_bad_then_quit) (call_run demo_app)) = View_update"
    "commands (exec demo_actors (take 5 open_bad_then_quit) (call_run demo_app))
       = [Load_command ''bad.sav'']"
    by (simp_all add: open_bad_then_quit_def demo_defs run_defs)
  have 7: "pc (exec demo_actors (take 7 open_bad_then_quit) (call_run demo_app)) = Pace"
    by (simp add: open_bad_then_quit_def demo_defs run_defs)
  from queue_empty_outside_poll_to_execute [OF e refl, of demo_actors "take 4 open_bad_then_quit"]
    queue_empty_outside_poll_to_execute [OF e refl, of demo_actors "take 7 open_bad_then_quit"]
    e 4 5 7
  show ?thesis by simp
qed

subsection \<open>The flag running\<close>

lemma step_loop_inv: "loop_inv c \<Longrightarrow> loop_inv (step A i c)"
proof (cases "turn i")
  case Main
  assume "loop_inv c"
  with Main show ?thesis
    by (cases "pc c")
       (auto simp: loop_inv_def step_def main_step_def Let_def execute_commands_fold
          cap_frame_rate_def notify_background_thread_def poll_input_def split: prod.splits)
next
  case Background
  assume "loop_inv c"
  with Background show ?thesis
    by (simp add: loop_inv_def step_def)
qed

lemma step_entering:
  "pc c = Set_running \<or> loop_inv c \<Longrightarrow> pc (step A i c) = Set_running \<or> loop_inv (step A i c)"
proof (cases "pc c = Set_running")
  case True
  then show ?thesis
    by (cases "turn i") (simp_all add: step_def main_step_def loop_inv_def)
next
  case False
  assume "pc c = Set_running \<or> loop_inv c"
  with False show ?thesis
    by (simp add: step_loop_inv)
qed

lemma step_running_falls:
  assumes "loop_inv c"
  shows "running (step A i c) \<longrightarrow> running c"
proof (cases "turn i")
  case Main
  with assms show ?thesis
    by (cases "pc c")
       (auto simp: loop_inv_def step_def main_step_def Let_def execute_commands_fold
          cap_frame_rate_def notify_background_thread_def)
next
  case Background
  then show ?thesis
    by (simp add: step_def)
qed

lemma run_running_falls:
  "loop_inv c \<Longrightarrow> running (exec A inps c) \<longrightarrow> running c"
proof (induction inps arbitrary: c)
  case Nil
  show ?case by simp
next
  case (Cons i inps)
  from Cons.prems have "loop_inv (step A i c)"
    by (rule step_loop_inv)
  from Cons.IH [OF this] step_running_falls [OF Cons.prems, of A i] show ?case
    by simp
qed

text \<open>
  \<^bold>\<open>C5.\<close> In the life of an App under \<^verbatim>\<open>run\<close>, from the moment its first statement
  (line 34) has set \<open>running\<close>: the flag is true when the thread is started; between any
  state \<open>c1\<close> and any later state \<open>c2\<close> it can only have gone from true to false, never
  back (if it is true in \<open>c2\<close> it was true in \<open>c1\<close>); and once it is false no later
  state is at the first statement of the loop body (\<open>Read_start\<close>) or at the poll: the
  loop body is not entered again.
\<close>

theorem running_only_falls:
  assumes "c1 = exec A xs (call_run w)" and "pc c1 \<noteq> Set_running" and "c2 = exec A ys c1"
  shows "(pc c1 = Start_thread \<longrightarrow> running c1)
         \<and> (running c2 \<longrightarrow> running c1)
         \<and> (\<not> running c1 \<longrightarrow> pc c2 \<noteq> Read_start \<and> pc c2 \<noteq> Poll_input)"
proof -
  have "pc (call_run w) = Set_running \<or> loop_inv (call_run w)"
    by (simp add: call_run_def)
  then have "pc c1 = Set_running \<or> loop_inv c1"
    unfolding assms(1) by (rule exec_invariant) (rule step_entering)
  with assms(2) have 1: "loop_inv c1"
    by simp
  then have 2: "loop_inv c2"
    unfolding assms(3) by (rule exec_invariant) (rule step_loop_inv)
  from 1 have 3: "running c2 \<longrightarrow> running c1"
    unfolding assms(3) by (rule run_running_falls)
  from 1 2 3 show ?thesis
    by (auto simp: loop_inv_def)
qed

text \<open>
  The user of the small application quits in the first frame: \<open>running\<close> is true up
  to the poll, false after it and for the rest of the run, and the loop is left at its
  test.
\<close>

theorem running_only_falls_witness:
  "pc (exec demo_actors (take 6 quit_at_once) (call_run demo_app)) = Poll_input
   \<and> running (exec demo_actors (take 6 quit_at_once) (call_run demo_app))
   \<and> pc (exec demo_actors (take 7 quit_at_once) (call_run demo_app)) = View_update
   \<and> \<not> running (exec demo_actors (take 7 quit_at_once) (call_run demo_app))
   \<and> \<not> running (exec demo_actors (take 10 quit_at_once) (call_run demo_app))
   \<and> pc (exec demo_actors (take 10 quit_at_once) (call_run demo_app)) = Loop_test
   \<and> pc (exec demo_actors (take 11 quit_at_once) (call_run demo_app)) = View_exit"
proof -
  let ?c1 = "exec demo_actors (take 7 quit_at_once) (call_run demo_app)"
  have 6: "pc (exec demo_actors (take 6 quit_at_once) (call_run demo_app)) = Poll_input"
    "running (exec demo_actors (take 6 quit_at_once) (call_run demo_app))"
    by (simp_all add: quit_at_once_def demo_defs run_defs)
  have 7: "pc ?c1 = View_update" "\<not> running ?c1"
    by (simp_all add: quit_at_once_def demo_defs run_defs)
  then have entered: "pc ?c1 \<noteq> Set_running"
    by simp
  have "take 10 quit_at_once = take 7 quit_at_once @ map input_of [Idle, Idle, Idle]"
    by (simp add: quit_at_once_def)
  then have c2: "exec demo_actors (take 10 quit_at_once) (call_run demo_app)
              = exec demo_actors (map input_of [Idle, Idle, Idle]) ?c1"
    by (simp only: exec_append)
  have 10: "pc (exec demo_actors (take 10 quit_at_once) (call_run demo_app)) = Loop_test"
    and 11: "pc (exec demo_actors (take 11 quit_at_once) (call_run demo_app)) = View_exit"
    by (simp_all add: quit_at_once_def demo_defs run_defs)
  from running_only_falls [OF refl entered c2] 6 7 10 11 show ?thesis
    by simp
qed

subsection \<open>Models and their Conditions over a run\<close>
















subsection \<open>Shutdown\<close>





text \<open>With the thread in its wait when the notification comes, and the first Model
  still held, \<^verbatim>\<open>join\<close> returns and \<^verbatim>\<open>run\<close> returns \<^verbatim>\<open>True\<close>.\<close>

lemma quit_at_once_returns:
  "pc (exec demo_actors quit_at_once (call_run demo_app)) = Returned True
   \<and> trace (exec demo_actors quit_at_once (call_run demo_app)) =
       [ViewCreated, ThreadStart 0, HandleInput, ViewUpdate, Sleep 0.008,
        ViewExit, Acquire 0, NotifyAll 0, Release 0, Joined]"
  by (simp add: quit_at_once_def demo_defs run_defs)

text \<open>
  \<^bold>\<open>C8.\<close> The claim has every run whose loop ends go through \<^verbatim>\<open>view.exit()\<close>, one
  \<^verbatim>\<open>notify_all\<close> and \<^verbatim>\<open>join\<close>, and return \<^verbatim>\<open>True\<close>; the docstrings of
  \<^verbatim>\<open>notify_background_thread\<close> (the notification is there so that the thread can exit
  its loop) and of \<^verbatim>\<open>background_updates\<close> (the thread stops when the loop ends) say
  the same. In the run below the user opens an unreadable file and then quits. The loop
  ends and \<^verbatim>\<open>run\<close> calls \<^verbatim>\<open>view.exit()\<close> and notifies, in this order, but it
  notifies Condition 1, of the Model that \<^verbatim>\<open>load_from_file\<close> made, while the thread
  waits on Condition 0: \<^verbatim>\<open>join\<close> blocks, and whatever comes later \<^verbatim>\<open>run\<close> stays
  there and does not return.
\<close>

theorem run_blocks_in_join_after_failed_load:
  "pc (exec demo_actors (open_bad_then_quit @ later) (call_run demo_app)) = Join
   \<and> thread (exec demo_actors (open_bad_then_quit @ later) (call_run demo_app)) = Waiting 0
   \<and> trace (exec demo_actors (open_bad_then_quit @ later) (call_run demo_app)) =
       [ViewCreated, ThreadStart 0,
        HandleInput, ViewUpdate, Execute (Load_command ''bad.sav''), Sleep 0.008,
        HandleInput, ViewUpdate, Sleep 0.008,
        ViewExit, Acquire 1, NotifyAll 1, Release 1]"
proof -
  let ?c = "exec demo_actors open_bad_then_quit (call_run demo_app)"
  have j: "pc ?c = Join" and t: "thread ?c = Waiting 0"
    by (simp_all add: open_bad_then_quit_def demo_defs run_defs)
  then have "exec demo_actors later ?c = ?c"
    by (rule blocked_in_join)
  then have "exec demo_actors (open_bad_then_quit @ later) (call_run demo_app) = ?c"
    by (simp add: exec_append)
  moreover have "trace ?c =
       [ViewCreated, ThreadStart 0,
        HandleInput, ViewUpdate, Execute (Load_command ''bad.sav''), Sleep 0.008,
        HandleInput, ViewUpdate, Sleep 0.008,
        ViewExit, Acquire 1, NotifyAll 1, Release 1]"
    by (simp add: open_bad_then_quit_def demo_defs run_defs)
  ultimately show ?thesis
    using j t by simp
qed

text \<open>
  \<^verbatim>\<open>join\<close> blocks in a second way, with the Model kept: nothing makes the thread
  wait before the main thread notifies. Here the thread has passed the test of its loop
  but is not waiting when Condition 0 is notified; it waits afterwards, and is not
  woken.
\<close>

lemma run_blocks_when_notification_lost:
  "pc (exec demo_actors (quit_before_wait @ later) (call_run demo_app)) = Join
   \<and> thread (exec demo_actors (quit_before_wait @ later) (call_run demo_app)) = Waiting 0
   \<and> model (comps (exec demo_actors (quit_before_wait @ later) (call_run demo_app))) = 0
   \<and> trace (exec demo_actors (quit_before_wait @ later) (call_run demo_app)) =
       [ViewCreated, ThreadStart 0, HandleInput, ViewUpdate, Sleep 0.008,
        ViewExit, Acquire 0, NotifyAll 0, Release 0]"
proof -
  let ?c = "exec demo_actors quit_before_wait (call_run demo_app)"
  have j: "pc ?c = Join" and t: "thread ?c = Waiting 0"
    by (simp_all add: quit_before_wait_def demo_defs run_defs)
  then have "exec demo_actors later ?c = ?c"
    by (rule blocked_in_join)
  then have "exec demo_actors (quit_before_wait @ later) (call_run demo_app) = ?c"
    by (simp add: exec_append)
  moreover have "model (comps ?c) = 0"
    by (simp add: quit_before_wait_def demo_defs run_defs)
  moreover have "trace ?c =
       [ViewCreated, ThreadStart 0, HandleInput, ViewUpdate, Sleep 0.008,
        ViewExit, Acquire 0, NotifyAll 0, Release 0]"
    by (simp add: quit_before_wait_def demo_defs run_defs)
  ultimately show ?thesis
    using j t by simp
qed

end
